theory Spec2Isabelle
  imports Main
begin

section \<open>Text conversions used by the formatter\<close>

text \<open>
  Plain decimal rendering of an unsigned and of a signed value.
\<close>

definition digit_char :: "nat \<Rightarrow> char" where
  "digit_char d = ''0123456789'' ! (d mod 10)"

fun dec_nat :: "nat \<Rightarrow> string" where
  "dec_nat n = (if n < 10 then [digit_char n] else dec_nat (n div 10) @ [digit_char (n mod 10)])"

declare dec_nat.simps [simp del]

definition dec_int :: "int \<Rightarrow> string" where
  "dec_int i = (if i < 0 then CHR ''-'' # dec_nat (nat (- i)) else dec_nat (nat i))"

text \<open>
  An output stream does not print a number in plain decimal: it asks the \<^verbatim>\<open>numpunct\<close>
  facet of its locale how to group the digits. \<open>grouping\<close> gives the sizes of the groups
  from the right (the last size repeats, and 0 stands for a group without limit);
  \<open>thousands_sep\<close> is put between the groups. The classic locale, which a program starts
  with, has an empty grouping. A stream takes the global locale when it is constructed.
  The standard facet that prints integers consults nothing else of the locale, and the
  stream of line 130 has the default flags (decimal, no sign for a value that is not
  negative).
\<close>

record numpunct =
  grouping :: "nat list"
  thousands_sep :: char

text \<open>The digits come least significant first.\<close>

fun group_digits :: "nat list \<Rightarrow> char \<Rightarrow> string \<Rightarrow> string" where
  "group_digits [] sep ds = ds"
| "group_digits (g # gs) sep ds =
     (if g = 0 \<or> length ds \<le> g then ds
      else take g ds @ sep # group_digits (if gs = [] then [g] else gs) sep (drop g ds))"

definition put_nat :: "numpunct \<Rightarrow> nat \<Rightarrow> string" where
  "put_nat np n = rev (group_digits (grouping np) (thousands_sep np) (rev (dec_nat n)))"

definition put_int :: "numpunct \<Rightarrow> int \<Rightarrow> string" where
  "put_int np i = (if i < 0 then CHR ''-'' # put_nat np (nat (- i)) else put_nat np (nat i))"

text \<open>
  The conversion \<^verbatim>\<open>%0wd\<close> of \<^verbatim>\<open>snprintf\<close>: the decimal digits, padded with zeros on the
  left up to the field width \<open>w\<close>; a negative value has its sign first and the sign counts
  in the width. A value with more digits than the width is printed in full.
\<close>

definition printf_0d :: "nat \<Rightarrow> int \<Rightarrow> string" where
  "printf_0d w i =
     (if i < 0
      then CHR ''-'' # replicate (w - 1 - length (dec_nat (nat (- i)))) CHR ''0'' @ dec_nat (nat (- i))
      else replicate (w - length (dec_nat (nat i))) CHR ''0'' @ dec_nat (nat i))"

text \<open>The remainder of C++ on signed integers truncates towards zero.\<close>

definition cpp_rem :: "int \<Rightarrow> int \<Rightarrow> int" where
  "cpp_rem a b = sgn a * (\<bar>a\<bar> mod \<bar>b\<bar>)"

section \<open>The data of \<^verbatim>\<open>base_log.h\<close>\<close>

text \<open>
  \<^verbatim>\<open>enum LogSeverity\<close> has the four enumerators 0 to 3 and no fixed underlying type,
  so these four are its values; the \<^verbatim>\<open>default\<close> branch of the switch in
  \<^verbatim>\<open>LogMessage::Flush\<close> is not reachable from them.
\<close>

datatype LogSeverity = LOG_LEVEL_INFO | LOG_LEVEL_WARNING | LOG_LEVEL_ERROR | LOG_LEVEL_FATAL

text \<open>
  \<^verbatim>\<open>spdlog::level::level_enum\<close>, the level type of the logging library the facade
  wraps, in increasing order. The header itself names \<open>info\<close>, \<open>warn\<close>, \<open>err\<close> and
  \<open>critical\<close>; \<^verbatim>\<open>Init\<close> and \<^verbatim>\<open>SetLevel\<close> accept any of the values.
\<close>

datatype level_enum = trace | debug | info | warn | err | critical | off

fun level_num :: "level_enum \<Rightarrow> nat" where
  "level_num trace = 0"
| "level_num debug = 1"
| "level_num info = 2"
| "level_num warn = 3"
| "level_num err = 4"
| "level_num critical = 5"
| "level_num off = 6"

text \<open>The fields of \<^verbatim>\<open>std::tm\<close> that the formatter reads.\<close>

record tm =
  tm_year :: int
  tm_mon :: int
  tm_mday :: int
  tm_hour :: int
  tm_min :: int
  tm_sec :: int

text \<open>
  What \<^verbatim>\<open>LogMessage::Flush\<close> reads from its surroundings: the system clock in
  microseconds since the epoch, the broken-down local time that \<^verbatim>\<open>localtime_r\<close> gives
  for that instant, the hash of the calling thread's identifier, and the global locale,
  which the stream \<^verbatim>\<open>formatted_msg\<close> (line 130) is constructed with.
\<close>

record environment =
  now_us :: int
  local_tm :: tm
  thread_hash :: nat
  global_locale :: numpunct

record LogMessage =
  severity :: LogSeverity
  source_file :: string
  source_line :: int
  message :: string

section \<open>The logging library behind the facade\<close>

text \<open>
  Modelled from the spec: the sinks and the logger of spdlog (\<^verbatim>\<open>spdlog::logger\<close>,
  \<^verbatim>\<open>stdout_color_sink_mt\<close>, \<^verbatim>\<open>rotating_file_sink_mt\<close>) are third-party code that the
  header only calls. A sink accepts a line and can be flushed: \<open>pending\<close> holds the lines
  accepted since the last flush, \<open>durable\<close> the lines a flush has forced out. The rotation
  of the file sink is not modelled; its path and limits are kept as configuration.
\<close>

datatype sink_kind = stdout_color_sink | rotating_file_sink string nat nat

record sink =
  kind :: sink_kind
  pattern :: string
  pending :: "string list"
  durable :: "string list"

record logger =
  logger_name :: string
  sinks :: "sink list"
  level :: level_enum
  flush_level :: level_enum

definition new_sink :: "sink_kind \<Rightarrow> sink" where
  "new_sink k = \<lparr>kind = k, pattern = ''%+'', pending = [], durable = []\<rparr>"

definition set_pattern :: "string \<Rightarrow> sink \<Rightarrow> sink" where
  "set_pattern p s = s\<lparr>pattern := p\<rparr>"

definition sink_log :: "string \<Rightarrow> sink \<Rightarrow> sink" where
  "sink_log l s = s\<lparr>pending := pending s @ [l]\<rparr>"

definition sink_flush :: "sink \<Rightarrow> sink" where
  "sink_flush s = s\<lparr>pending := [], durable := durable s @ pending s\<rparr>"

text \<open>
  Modelled from the spec: a record is admitted when its level meets the logger's minimum;
  an admitted line goes to every sink in the order the sinks were added; after the
  routing, a record whose level meets the flush threshold has every sink flushed.
\<close>

definition should_log :: "logger \<Rightarrow> level_enum \<Rightarrow> bool" where
  "should_log lg lvl = (level_num (level lg) \<le> level_num lvl)"

definition should_flush :: "logger \<Rightarrow> level_enum \<Rightarrow> bool" where
  "should_flush lg lvl = (level_num (flush_level lg) \<le> level_num lvl)"

definition logger_flush :: "logger \<Rightarrow> logger" where
  "logger_flush lg = lg\<lparr>sinks := map sink_flush (sinks lg)\<rparr>"

definition logger_log :: "level_enum \<Rightarrow> string \<Rightarrow> logger \<Rightarrow> logger" where
  "logger_log lvl l lg =
     (if should_log lg lvl
      then (let lg' = lg\<lparr>sinks := map (sink_log l) (sinks lg)\<rparr>
            in if should_flush lg lvl then logger_flush lg' else lg')
      else lg)"

section \<open>The state of the facade\<close>

text \<open>
  The steps of \<^verbatim>\<open>LogMessage::Flush\<close> and \<^verbatim>\<open>Logger::Init\<close> that leave no mark on the
  logger are recorded in the order they run: reading the clock, hashing the thread
  identifier, building the formatted line, handing a line to the logger, and the warning
  that \<^verbatim>\<open>Init\<close> sends through \<^verbatim>\<open>spdlog::warn\<close>.
\<close>

datatype effect =
  ClockRead
| ThreadHashed
| Rendered string
| Passed level_enum string
| Warned string

text \<open>
  \<^verbatim>\<open>LogMessage::logger_\<close> is the one static shared pointer of the header: empty, or
  the active logger. The fields of the header end in an underscore (\<^verbatim>\<open>severity_\<close>,
  \<^verbatim>\<open>file_\<close>, \<^verbatim>\<open>line_\<close>, \<^verbatim>\<open>message_\<close>, \<^verbatim>\<open>logger_\<close>), which a field name here cannot; \<open>source_file\<close> and \<open>source_line\<close> stand
  for \<^verbatim>\<open>file_\<close> and \<^verbatim>\<open>line_\<close>, \<open>LogMessage_logger\<close> for \<^verbatim>\<open>LogMessage::logger_\<close>.
\<close>

text \<open>
  The registry of the library, as far as the header touches it. It is third-party code
  that the header only calls (\<^verbatim>\<open>spdlog::register_logger\<close>, \<^verbatim>\<open>set_default_logger\<close>,
  \<^verbatim>\<open>drop_all\<close>, \<^verbatim>\<open>spdlog::warn\<close>) and the spec does not describe; it is modelled after
  the library. The registry knows loggers by name and has a default logger, which
  \<^verbatim>\<open>spdlog::warn\<close> writes through. Registering a name that is registered already
  throws \<^verbatim>\<open>spdlog_ex\<close>; \<^verbatim>\<open>drop_all\<close> removes every logger and the default logger. With
  the one name \<^verbatim>\<open>"snow_logger"\<close> that the header uses, the registry is in one of four
  states:
  \<^item> \<open>builtin_default\<close>: the program has registered nothing; the default logger is the
    library's own, which writes to the standard output;
  \<^item> \<open>facade_registered\<close>: the logger that \<^verbatim>\<open>LogMessage::logger_\<close> points to is registered
    and is the default logger;
  \<^item> \<open>stale_registered\<close>: a logger of that name is registered and is the default logger,
    but \<^verbatim>\<open>LogMessage::logger_\<close> has been pointed to another one since;
  \<^item> \<open>dropped\<close>: after \<^verbatim>\<open>drop_all\<close>, no logger is registered and there is no default
    logger.
\<close>

datatype spdlog_registry = builtin_default | facade_registered | stale_registered | dropped

text \<open>
  \<open>released\<close> keeps the loggers that \<^verbatim>\<open>LogMessage::logger_\<close> has pointed to and no longer
  does, each as it was when the pointer let go of it.
\<close>

record log_state =
  LogMessage_logger :: "logger option"
  effects :: "effect list"
  registry :: spdlog_registry
  released :: "logger list"

text \<open>
  How a call ends: it returns, \<^verbatim>\<open>std::abort\<close> ends the process, an exception of the
  library leaves the call, or the call runs into undefined behaviour.
\<close>

datatype outcome = Returned | Aborted | Thrown string | Undefined

section \<open>\<^verbatim>\<open>LogMessage\<close>\<close>

definition LogMessage_ctor :: "LogSeverity \<Rightarrow> string \<Rightarrow> int \<Rightarrow> LogMessage" where
  "LogMessage_ctor sev f l =
     \<lparr>severity = sev, source_file = f, source_line = l, message = []\<rparr>"

text \<open>
  \<^verbatim>\<open>operator<<\<close> appends the text of its argument to the buffer; the conversion is the
  output stream's, for an \<^verbatim>\<open>int\<close> with the locale of the stream \<^verbatim>\<open>message_\<close>. The
  manipulator \<^verbatim>\<open>std::endl\<close> appends a line feed.
\<close>

definition shl :: "LogMessage \<Rightarrow> string \<Rightarrow> LogMessage" where
  "shl m text = m\<lparr>message := message m @ text\<rparr>"

definition shl_int :: "numpunct \<Rightarrow> LogMessage \<Rightarrow> int \<Rightarrow> LogMessage" where
  "shl_int np m i = shl m (put_int np i)"

definition shl_endl :: "LogMessage \<Rightarrow> LogMessage" where
  "shl_endl m = shl m [CHR 0x0A]"

text \<open>
  \<^verbatim>\<open>snprintf(time_str, sizeof(time_str), "%04d%02d%02d %02d:%02d:%02d.%06ld", ...)\<close>
  with a buffer of 32 bytes: at most 31 characters are kept.
\<close>

definition time_str :: "tm \<Rightarrow> int \<Rightarrow> string" where
  "time_str t ms =
     take 31
       (printf_0d 4 (tm_year t + 1900) @ printf_0d 2 (tm_mon t + 1) @ printf_0d 2 (tm_mday t)
        @ '' '' @ printf_0d 2 (tm_hour t) @ '':'' @ printf_0d 2 (tm_min t) @ '':''
        @ printf_0d 2 (tm_sec t) @ ''.'' @ printf_0d 6 ms)"

fun level_char :: "LogSeverity \<Rightarrow> char" where
  "level_char LOG_LEVEL_INFO = CHR ''I''"
| "level_char LOG_LEVEL_WARNING = CHR ''W''"
| "level_char LOG_LEVEL_ERROR = CHR ''E''"
| "level_char LOG_LEVEL_FATAL = CHR ''F''"

fun spdlog_level :: "LogSeverity \<Rightarrow> level_enum" where
  "spdlog_level LOG_LEVEL_INFO = info"
| "spdlog_level LOG_LEVEL_WARNING = warn"
| "spdlog_level LOG_LEVEL_ERROR = err"
| "spdlog_level LOG_LEVEL_FATAL = critical"

text \<open>
  \<^verbatim>\<open>filename.find_last_of("/\\")\<close>: the greatest index whose character is one of the
  given ones, or nothing (\<^verbatim>\<open>npos\<close>).
\<close>

fun find_last_of :: "string \<Rightarrow> string \<Rightarrow> nat option" where
  "find_last_of [] cs = None"
| "find_last_of (c # s) cs =
     (case find_last_of s cs of
        Some i \<Rightarrow> Some (Suc i)
      | None \<Rightarrow> if c \<in> set cs then Some 0 else None)"

definition separators :: string where
  "separators = [CHR ''/'', CHR 0x5C]"

text \<open>Lines 123 to 127: the name shown for the file.\<close>

definition filename :: "string \<Rightarrow> string" where
  "filename file =
     (case find_last_of file separators of
        None \<Rightarrow> file
      | Some pos \<Rightarrow> drop (pos + 1) file)"

text \<open>
  Lines 130 to 134: the formatted message. The character, the strings and the text of
  \<^verbatim>\<open>time_str\<close> go into the stream as they are; the thread hash (a \<^verbatim>\<open>size_t\<close>) and the
  line number (an \<^verbatim>\<open>int\<close>) are numbers, which the stream prints with its locale.
\<close>

definition formatted_msg :: "LogMessage \<Rightarrow> environment \<Rightarrow> string" where
  "formatted_msg m e =
     level_char (severity m) # time_str (local_tm e) (cpp_rem (now_us e) 1000000)
     @ '' '' @ put_nat (global_locale e) (thread_hash e) @ '' ''
     @ filename (source_file m) @ '':'' @ put_int (global_locale e) (source_line m) @ ''] ''
     @ message m"

definition LogMessage_Flush :: "LogMessage \<Rightarrow> environment \<Rightarrow> log_state \<Rightarrow> log_state" where
  "LogMessage_Flush m e st =
     (case LogMessage_logger st of
        None \<Rightarrow> st
      | Some lg \<Rightarrow>
          st\<lparr>LogMessage_logger := Some (logger_log (spdlog_level (severity m)) (formatted_msg m e) lg),
             effects := effects st @
               [ClockRead, ThreadHashed, Rendered (formatted_msg m e),
                Passed (spdlog_level (severity m)) (formatted_msg m e)]\<rparr>)"

text \<open>The destructor, which is where a record is finalized.\<close>

definition LogMessage_dtor :: "LogMessage \<Rightarrow> environment \<Rightarrow> log_state \<Rightarrow> outcome \<times> log_state" where
  "LogMessage_dtor m e st =
     (let st' = (if message m \<noteq> [] then LogMessage_Flush m e st else st)
      in if severity m = LOG_LEVEL_FATAL then (Aborted, st') else (Returned, st'))"

section \<open>\<^verbatim>\<open>Logger\<close>\<close>

text \<open>
  What \<^verbatim>\<open>Logger::Init\<close> meets outside the program: whether the constructor of the
  rotating file sink throws \<^verbatim>\<open>spdlog_ex\<close>, and with which text.
\<close>

record init_environment =
  file_sink_error :: "string option"

text \<open>
  \<^verbatim>\<open>spdlog::warn\<close> in the handler of line 179 writes through the default logger of the
  library. When that is the logger of the facade, the warning is a record of level
  \<open>warn\<close> for it (spec 4.3: the warning goes through the sinks that are already active);
  otherwise it goes to a logger outside this state and only the effect is recorded.
\<close>

definition spdlog_warn :: "string \<Rightarrow> log_state \<Rightarrow> log_state" where
  "spdlog_warn text st =
     (case registry st of
        facade_registered \<Rightarrow>
          st\<lparr>LogMessage_logger := map_option (logger_log warn text) (LogMessage_logger st),
             effects := effects st @ [Warned text]\<rparr>
      | _ \<Rightarrow> st\<lparr>effects := effects st @ [Warned text]\<rparr>)"

definition already_exists :: string where
  "already_exists =
     ''logger with name '' @ [CHR 0x27] @ ''snow_logger'' @ [CHR 0x27] @ '' already exists''"

text \<open>
  \<^verbatim>\<open>Logger::Init\<close>, in the order of the source. Lines 163 to 183 collect the sinks; a
  file sink that cannot be created is replaced by a warning, which has no default logger
  to go through after \<^verbatim>\<open>drop_all\<close> (a null pointer is dereferenced). Line 186 points
  \<^verbatim>\<open>LogMessage::logger_\<close> to the new logger and lets go of the old one, with no flush;
  lines 187 and 188 set the levels. Line 191 registers the logger, which throws when the
  name is taken; line 192 makes it the default logger.
\<close>

definition Init ::
  "string \<Rightarrow> nat \<Rightarrow> nat \<Rightarrow> level_enum \<Rightarrow> init_environment \<Rightarrow> log_state \<Rightarrow> outcome \<times> log_state" where
  "Init log_file max_file_size max_files lvl ie st =
     (let console_sink = set_pattern ''%v'' (new_sink stdout_color_sink);
          sinks0 = [console_sink];
          file_sink = set_pattern ''%v''
                        (new_sink (rotating_file_sink log_file max_file_size max_files))
      in if log_file \<noteq> [] \<and> file_sink_error ie \<noteq> None \<and> registry st = dropped
         then (Undefined, st)
         else
           (let (sinks1, st1) =
                  (if log_file \<noteq> []
                   then (case file_sink_error ie of
                           None \<Rightarrow> (sinks0 @ [file_sink], st)
                         | Some what \<Rightarrow>
                             (sinks0, spdlog_warn (''Failed to create log file: '' @ what) st))
                   else (sinks0, st));
                lg = \<lparr>logger_name = ''snow_logger'', sinks = sinks1, level = lvl,
                      flush_level = warn\<rparr>;
                st2 = st1\<lparr>LogMessage_logger := Some lg,
                         released := released st1 @
                           (case LogMessage_logger st1 of None \<Rightarrow> [] | Some old \<Rightarrow> [old])\<rparr>
            in if registry st = facade_registered \<or> registry st = stale_registered
               then (Thrown already_exists, st2\<lparr>registry := stale_registered\<rparr>)
               else (Returned, st2\<lparr>registry := facade_registered\<rparr>)))"

definition SetLevel :: "level_enum \<Rightarrow> log_state \<Rightarrow> log_state" where
  "SetLevel lvl st =
     (case LogMessage_logger st of
        None \<Rightarrow> st
      | Some lg \<Rightarrow> st\<lparr>LogMessage_logger := Some (lg\<lparr>level := lvl\<rparr>)\<rparr>)"

definition Logger_Flush :: "log_state \<Rightarrow> log_state" where
  "Logger_Flush st =
     (case LogMessage_logger st of
        None \<Rightarrow> st
      | Some lg \<Rightarrow> st\<lparr>LogMessage_logger := Some (logger_flush lg)\<rparr>)"

text \<open>
  \<^verbatim>\<open>Shutdown\<close>, when a logger is active: the logger is flushed, \<^verbatim>\<open>drop_all\<close> empties the
  registry, and the pointer is reset, which lets go of the flushed logger.
\<close>

definition Shutdown :: "log_state \<Rightarrow> log_state" where
  "Shutdown st =
     (case LogMessage_logger st of
        None \<Rightarrow> st
      | Some lg \<Rightarrow>
          st\<lparr>LogMessage_logger := None, registry := dropped,
             released := released st @ [logger_flush lg]\<rparr>)"

section \<open>The macros\<close>

text \<open>
  \<^verbatim>\<open>LOG_INFO << a << b\<close> builds a temporary \<^verbatim>\<open>LogMessage\<close>, evaluates and appends the
  arguments from left to right, and destroys the temporary at the end of the full
  expression. An argument expression is a computation on the caller's own state \<open>'u\<close>
  that yields the text to append.
\<close>

fun append_args :: "('u \<Rightarrow> string \<times> 'u) list \<Rightarrow> LogMessage \<Rightarrow> 'u \<Rightarrow> LogMessage \<times> 'u" where
  "append_args [] m u = (m, u)"
| "append_args (a # as) m u = (case a u of (text, u') \<Rightarrow> append_args as (shl m text) u')"

definition LOG ::
  "LogSeverity \<Rightarrow> string \<Rightarrow> int \<Rightarrow> ('u \<Rightarrow> string \<times> 'u) list \<Rightarrow> environment \<Rightarrow>
   'u \<times> log_state \<Rightarrow> outcome \<times> 'u \<times> log_state" where
  "LOG sev f l args e us =
     (case us of (u, st) \<Rightarrow>
        (case append_args args (LogMessage_ctor sev f l) u of (m, u') \<Rightarrow>
           (case LogMessage_dtor m e st of (r, st') \<Rightarrow> (r, u', st'))))"

text \<open>
  \<^verbatim>\<open>LOG_INFO_IF(condition) << a\<close> is \<^verbatim>\<open>!(condition) ? (void)0 : LogMessage(...) << a\<close>.
  The shift binds tighter than the conditional operator, so the third operand is the
  whole logging expression: its type is \<^verbatim>\<open>LogMessage&\<close>, what \<^verbatim>\<open>operator<<\<close> returns
  (\<^verbatim>\<open>LogMessage\<close> when nothing is appended). The second operand, \<^verbatim>\<open>(void)0\<close>, has type
  \<^verbatim>\<open>void\<close>. A conditional expression with an operand of type \<^verbatim>\<open>void\<close> is well formed
  only if the other one has type \<^verbatim>\<open>void\<close> too (or one of them is a throw-expression,
  which is not the case here).
\<close>

datatype operand_type = void_type | LogMessage_type

fun conditional_well_formed :: "operand_type \<Rightarrow> operand_type \<Rightarrow> bool" where
  "conditional_well_formed void_type void_type = True"
| "conditional_well_formed void_type LogMessage_type = False"
| "conditional_well_formed LogMessage_type void_type = False"
| "conditional_well_formed LogMessage_type LogMessage_type = True"

text \<open>
  A statement that is not well formed does not compile: there is no program and no
  result. A well-formed conditional expression would evaluate its third operand only
  when the condition holds.
\<close>

definition LOG_IF ::
  "LogSeverity \<Rightarrow> bool \<Rightarrow> string \<Rightarrow> int \<Rightarrow> ('u \<Rightarrow> string \<times> 'u) list \<Rightarrow> environment \<Rightarrow>
   'u \<times> log_state \<Rightarrow> (outcome \<times> 'u \<times> log_state) option" where
  "LOG_IF sev condition f l args e us =
     (if conditional_well_formed void_type LogMessage_type
      then Some (if \<not> condition then (case us of (u, st) \<Rightarrow> (Returned, u, st))
                 else LOG sev f l args e us)
      else None)"

section \<open>Notions the properties are stated with\<close>

text \<open>
  The static member is initialised to \<^verbatim>\<open>nullptr\<close> (line 226): no logger is active
  when the program starts.
\<close>

definition initial_state :: log_state where
  "initial_state =
     \<lparr>LogMessage_logger = None, effects = [], registry = builtin_default, released = []\<rparr>"

text \<open>All the lines a sink has accepted, flushed or not, in order.\<close>

definition sink_lines :: "sink \<Rightarrow> string list" where
  "sink_lines s = durable s @ pending s"

text \<open>No sink of the active logger holds a line that is not flushed.\<close>

definition all_flushed :: "log_state \<Rightarrow> bool" where
  "all_flushed st =
     (case LogMessage_logger st of
        None \<Rightarrow> True
      | Some lg \<Rightarrow> list_all (\<lambda>s. pending s = []) (sinks lg))"

text \<open>
  What \<^verbatim>\<open>localtime_r\<close> gives for an instant of the years 0 to 9999: the ranges of the
  fields of \<^verbatim>\<open>std::tm\<close> (a leap second makes \<open>tm_sec\<close> 60).
\<close>

definition tm_in_range :: "tm \<Rightarrow> bool" where
  "tm_in_range t =
     (- 1900 \<le> tm_year t \<and> tm_year t \<le> 8099 \<and>
      0 \<le> tm_mon t \<and> tm_mon t \<le> 11 \<and>
      1 \<le> tm_mday t \<and> tm_mday t \<le> 31 \<and>
      0 \<le> tm_hour t \<and> tm_hour t \<le> 23 \<and>
      0 \<le> tm_min t \<and> tm_min t \<le> 59 \<and>
      0 \<le> tm_sec t \<and> tm_sec t \<le> 60)"

text \<open>
  The layout of a line is given as a regular expression. Expressions are matched
  against the whole string (the anchors \<^verbatim>\<open>^\<close> and \<^verbatim>\<open>$\<close>) by taking derivatives.
  \<open>AnyChar\<close> is the dot of the usual dialects: any character but the line feed.
\<close>

datatype char_class = Lit char | Digit | OneOf string | NoneOf string | AnyChar

fun in_class :: "char_class \<Rightarrow> char \<Rightarrow> bool" where
  "in_class (Lit d) c = (c = d)"
| "in_class Digit c = (c \<in> set ''0123456789'')"
| "in_class (OneOf cs) c = (c \<in> set cs)"
| "in_class (NoneOf cs) c = (c \<notin> set cs)"
| "in_class AnyChar c = (c \<noteq> CHR 0x0A)"

datatype regex = Nothing | Empty | Sym char_class | Seq regex regex | Alt regex regex | Star regex

fun nullable :: "regex \<Rightarrow> bool" where
  "nullable Nothing = False"
| "nullable Empty = True"
| "nullable (Sym k) = False"
| "nullable (Seq r s) = (nullable r \<and> nullable s)"
| "nullable (Alt r s) = (nullable r \<or> nullable s)"
| "nullable (Star r) = True"

fun deriv :: "char \<Rightarrow> regex \<Rightarrow> regex" where
  "deriv c Nothing = Nothing"
| "deriv c Empty = Nothing"
| "deriv c (Sym k) = (if in_class k c then Empty else Nothing)"
| "deriv c (Seq r s) =
     (if nullable r then Alt (Seq (deriv c r) s) (deriv c s) else Seq (deriv c r) s)"
| "deriv c (Alt r s) = Alt (deriv c r) (deriv c s)"
| "deriv c (Star r) = Seq (deriv c r) (Star r)"

fun matches :: "regex \<Rightarrow> string \<Rightarrow> bool" where
  "matches r [] = nullable r"
| "matches r (c # w) = matches (deriv c r) w"

definition Plus :: "regex \<Rightarrow> regex" where
  "Plus r = Seq r (Star r)"

fun Times :: "nat \<Rightarrow> regex \<Rightarrow> regex" where
  "Times 0 r = Empty"
| "Times (Suc n) r = Seq r (Times n r)"

fun seqs :: "regex list \<Rightarrow> regex" where
  "seqs [] = Empty"
| "seqs (r # rs) = Seq r (seqs rs)"

text \<open>
  \<^verbatim>\<open>^[IWEF]\d{8} \d{2}:\d{2}:\d{2}\.\d{6} \d+ [^/\\]+:\d+\] .*$\<close>
\<close>

definition layout_regex :: regex where
  "layout_regex =
     seqs [Sym (OneOf ''IWEF''), Times 8 (Sym Digit), Sym (Lit CHR '' ''),
           Times 2 (Sym Digit), Sym (Lit CHR '':''), Times 2 (Sym Digit), Sym (Lit CHR '':''),
           Times 2 (Sym Digit), Sym (Lit CHR ''.''), Times 6 (Sym Digit), Sym (Lit CHR '' ''),
           Plus (Sym Digit), Sym (Lit CHR '' ''),
           Plus (Sym (NoneOf separators)), Sym (Lit CHR '':''), Plus (Sym Digit),
           Sym (Lit CHR '']''), Sym (Lit CHR '' ''),
           Star (Sym AnyChar)]"

text \<open>
  The number a string of decimal digits denotes, and what a zero-padded field of width
  \<open>w\<close> for the value \<open>i\<close> is: \<open>w\<close> characters, all of them digits, denoting \<open>i\<close>.
\<close>

definition digit_value :: "char \<Rightarrow> nat" where
  "digit_value c = of_char c - 48"

definition dec_value :: "string \<Rightarrow> nat" where
  "dec_value s = foldl (\<lambda>a c. 10 * a + digit_value c) 0 s"

definition zero_padded :: "nat \<Rightarrow> int \<Rightarrow> string \<Rightarrow> bool" where
  "zero_padded w i s = (length s = w \<and> list_all (in_class Digit) s \<and> int (dec_value s) = i)"

text \<open>Concrete surroundings and states for the examples.\<close>

definition example_environment :: environment where
  "example_environment =
     \<lparr>now_us = 1703410245123456,
      local_tm = \<lparr>tm_year = 123, tm_mon = 11, tm_mday = 24, tm_hour = 9, tm_min = 30, tm_sec = 45\<rparr>,
      thread_hash = 12345,
      global_locale = \<lparr>grouping = [], thousands_sep = CHR '',''\<rparr>\<rparr>"

text \<open>The same surroundings with a locale that groups digits by three.\<close>

definition grouping_environment :: environment where
  "grouping_environment =
     example_environment\<lparr>global_locale := \<lparr>grouping = [3], thousands_sep = CHR '',''\<rparr>\<rparr>"

definition no_failure :: init_environment where
  "no_failure = \<lparr>file_sink_error = None\<rparr>"

text \<open>An argument expression with a side effect on the caller's state, a counter.\<close>

definition probe :: "nat \<Rightarrow> string \<times> nat" where
  "probe n = (''fired'', Suc n)"

definition console_state :: log_state where
  "console_state = snd (Init [] 10485760 5 info no_failure initial_state)"


definition file_state :: log_state where
  "file_state = snd (Init ''app.log'' 1048576 3 info no_failure initial_state)"

definition info_message :: LogMessage where
  "info_message =
     \<lparr>severity = LOG_LEVEL_INFO, source_file = ''src/main.cpp'', source_line = 42,
      message = ''started''\<rparr>"

definition warning_message :: LogMessage where
  "warning_message =
     \<lparr>severity = LOG_LEVEL_WARNING, source_file = ''src/main.cpp'', source_line = 43,
      message = ''slow''\<rparr>"

definition error_message :: LogMessage where
  "error_message =
     \<lparr>severity = LOG_LEVEL_ERROR, source_file = ''src/main.cpp'', source_line = 44,
      message = ''failed''\<rparr>"

definition fatal_message :: LogMessage where
  "fatal_message =
     \<lparr>severity = LOG_LEVEL_FATAL, source_file = ''src/main.cpp'', source_line = 45,
      message = ''disk full''\<rparr>"

definition grouped_line_message :: LogMessage where
  "grouped_line_message =
     \<lparr>severity = LOG_LEVEL_INFO, source_file = ''src/main.cpp'', source_line = 1234,
      message = ''started''\<rparr>"

definition negative_line_message :: LogMessage where
  "negative_line_message =
     \<lparr>severity = LOG_LEVEL_INFO, source_file = ''src/main.cpp'', source_line = - 1,
      message = ''started''\<rparr>"

definition line_feed_message :: LogMessage where
  "line_feed_message =
     \<lparr>severity = LOG_LEVEL_INFO, source_file = ''src/main.cpp'', source_line = 42,
      message = [CHR ''a'', CHR 0x0A, CHR ''b'']\<rparr>"

text \<open>The same surroundings in the year 10000, and one microsecond before the epoch.\<close>

definition far_future_environment :: environment where
  "far_future_environment =
     example_environment\<lparr>local_tm := (local_tm example_environment)\<lparr>tm_year := 8100\<rparr>\<rparr>"

definition before_epoch_environment :: environment where
  "before_epoch_environment =
     example_environment
       \<lparr>now_us := - 1,
        local_tm := \<lparr>tm_year = 69, tm_mon = 11, tm_mday = 31, tm_hour = 23, tm_min = 59,
                     tm_sec = 59\<rparr>\<rparr>"

definition trailing_separator_message :: LogMessage where
  "trailing_separator_message =
     \<lparr>severity = LOG_LEVEL_INFO, source_file = ''src/'', source_line = 42,
      message = ''started''\<rparr>"


text \<open>The state after \<^verbatim>\<open>Init("app.log", 1048576, 3)\<close> and one INFO record.\<close>

definition pending_state :: log_state where
  "pending_state = snd (LogMessage_dtor info_message example_environment file_state)"

section \<open>The base name of the source file\<close>

lemma find_last_of_None: "find_last_of s cs = None \<longleftrightarrow> set s \<inter> set cs = {}"
  by (induction s) (auto split: option.splits)

lemma find_last_of_Some:
  "find_last_of s cs = Some i \<Longrightarrow>
     i < length s \<and> s ! i \<in> set cs \<and> set (drop (Suc i) s) \<inter> set cs = {}"
proof (induction s arbitrary: i)
  case Nil
  then show ?case by simp
next
  case (Cons c s)
  show ?case
  proof (cases "find_last_of s cs")
    case None
    with Cons.prems have "i = 0" "c \<in> set cs" by (auto split: if_splits)
    moreover from None have "set s \<inter> set cs = {}" by (simp add: find_last_of_None)
    ultimately show ?thesis by simp
  next
    case (Some j)
    with Cons.prems have "i = Suc j" by simp
    with Cons.IH [OF Some] show ?thesis by simp
  qed
qed

lemma filename_no_separator: "set (filename f) \<inter> set separators = {}"
proof (cases "find_last_of f separators")
  case None
  then show ?thesis by (simp add: filename_def find_last_of_None [symmetric])
next
  case (Some i)
  with find_last_of_Some [OF Some] show ?thesis by (simp add: filename_def)
qed

text \<open>
  C9, as the code has it. The name shown is the path itself when the path has no
  separator; otherwise the path is some prefix, a separator, and the name shown, and the
  name shown has no separator: it is what follows the last separator. Nothing replaces a
  name that comes out empty.
\<close>

theorem filename_after_last_separator:
  "(set f \<inter> set separators = {} \<longrightarrow> filename f = f) \<and>
   (set f \<inter> set separators \<noteq> {} \<longrightarrow>
      (\<exists>pre c. f = pre @ c # filename f \<and> c \<in> set separators
         \<and> set (filename f) \<inter> set separators = {}))"
proof (cases "find_last_of f separators")
  case None
  then have "set f \<inter> set separators = {}" by (simp add: find_last_of_None)
  with None show ?thesis by (simp add: filename_def)
next
  case (Some i)
  from find_last_of_Some [OF Some]
  have i: "i < length f" "f ! i \<in> set separators" "set (drop (Suc i) f) \<inter> set separators = {}"
    by simp_all
  have nonempty: "set f \<inter> set separators \<noteq> {}"
    using Some find_last_of_None [of f separators] by simp
  have fn: "filename f = drop (Suc i) f" using Some by (simp add: filename_def)
  have "f = take i f @ f ! i # filename f"
    using i(1) fn by (simp add: id_take_nth_drop [symmetric])
  with i(2,3) fn have "\<exists>pre c. f = pre @ c # filename f \<and> c \<in> set separators
         \<and> set (filename f) \<inter> set separators = {}" by auto
  with nonempty show ?thesis by simp
qed

theorem filename_after_last_separator_witness:
  "set ''main.cpp'' \<inter> set separators = {} \<and> filename ''main.cpp'' = ''main.cpp'' \<and>
   set ''src/main.cpp'' \<inter> set separators \<noteq> {} \<and>
   (\<exists>pre c. ''src/main.cpp'' = pre @ c # filename ''src/main.cpp'' \<and> c \<in> set separators
         \<and> set (filename ''src/main.cpp'') \<inter> set separators = {})"
proof -
  have a: "set ''main.cpp'' \<inter> set separators = {}" by (simp add: separators_def)
  have b: "set ''src/main.cpp'' \<inter> set separators \<noteq> {}" by (simp add: separators_def)
  from a filename_after_last_separator [of "''main.cpp''"]
  have "filename ''main.cpp'' = ''main.cpp''" by blast
  moreover from b filename_after_last_separator [of "''src/main.cpp''"]
  have "\<exists>pre c. ''src/main.cpp'' = pre @ c # filename ''src/main.cpp'' \<and> c \<in> set separators
         \<and> set (filename ''src/main.cpp'') \<inter> set separators = {}" by blast
  ultimately show ?thesis using a b by blast
qed

text \<open>
  A path that ends in a separator: the name after the last separator is empty, and the
  empty name is what the line shows, not the path.
\<close>

theorem filename_trailing_separator:
  "filename ''src/'' = [] \<and> filename ''src/'' \<noteq> ''src/''"
  by (simp add: filename_def separators_def)

section \<open>Finalizing a record\<close>

lemma append_args_severity: "severity (fst (append_args args m u)) = severity m"
  by (induction args arbitrary: m u) (auto simp: shl_def split: prod.splits)

lemma dtor_outcome:
  "fst (LogMessage_dtor m e st) = (if severity m = LOG_LEVEL_FATAL then Aborted else Returned)"
  by (simp add: LogMessage_dtor_def Let_def)

lemma dtor_state:
  "snd (LogMessage_dtor m e st) = (if message m \<noteq> [] then LogMessage_Flush m e st else st)"
  by (simp add: LogMessage_dtor_def Let_def)

lemma Flush_inactive: "LogMessage_logger st = None \<Longrightarrow> LogMessage_Flush m e st = st"
  by (simp add: LogMessage_Flush_def)

text \<open>
  C4. A record whose buffer is empty when it is finalized leaves the whole state as it
  was: the logger and its sinks are untouched, and no step of the formatter has run.
  A log statement with no appended text is such a record.
\<close>

theorem empty_message_no_output:
  "(message m = [] \<longrightarrow> snd (LogMessage_dtor m e st) = st) \<and>
   snd (snd (LOG sev f l [] e (u, st))) = st"
  by (simp add: LogMessage_dtor_def LOG_def LogMessage_ctor_def Let_def)

theorem empty_message_no_output_witness:
  "message (LogMessage_ctor LOG_LEVEL_WARNING ''main.cpp'' 42) = [] \<and>
   snd (LogMessage_dtor (LogMessage_ctor LOG_LEVEL_WARNING ''main.cpp'' 42) example_environment
          console_state) = console_state"
  using empty_message_no_output
    [where m = "LogMessage_ctor LOG_LEVEL_WARNING ''main.cpp'' 42" and e = example_environment
       and st = console_state, THEN conjunct1]
  by (simp add: LogMessage_ctor_def)

text \<open>
  C10. Destroying a record of severity FATAL ends in \<^verbatim>\<open>std::abort\<close> whatever the
  message and the state; with no active logger, or with an empty buffer, the state is
  left as it was, so no line is produced.
\<close>

theorem fatal_aborts_in_every_case:
  "severity m = LOG_LEVEL_FATAL \<Longrightarrow>
     fst (LogMessage_dtor m e st) = Aborted \<and>
     (LogMessage_logger st = None \<or> message m = [] \<longrightarrow> snd (LogMessage_dtor m e st) = st)"
  by (auto simp: dtor_outcome dtor_state Flush_inactive)

theorem fatal_aborts_in_every_case_witness:
  "severity \<lparr>severity = LOG_LEVEL_FATAL, source_file = ''main.cpp'', source_line = 7,
             message = ''disk full''\<rparr> = LOG_LEVEL_FATAL \<and>
   LogMessage_logger initial_state = None \<and>
   LogMessage_dtor \<lparr>severity = LOG_LEVEL_FATAL, source_file = ''main.cpp'', source_line = 7,
                    message = ''disk full''\<rparr> example_environment initial_state
     = (Aborted, initial_state)"
  using fatal_aborts_in_every_case
    [where m = "\<lparr>severity = LOG_LEVEL_FATAL, source_file = ''main.cpp'', source_line = 7,
          message = ''disk full''\<rparr>" and st = initial_state and e = example_environment]
  by (simp add: initial_state_def prod_eq_iff)

text \<open>
  C3, as the code has it. With no active logger, finalizing a record leaves the whole
  state as it was, whatever the severity and the message: nothing is formatted, written
  or kept. The call returns for INFO, WARNING and ERROR; a FATAL record still ends the
  process.
\<close>

theorem inactive_registry_drops:
  "LogMessage_logger st = None \<Longrightarrow>
     LogMessage_dtor m e st = (if severity m = LOG_LEVEL_FATAL then Aborted else Returned, st)"
  by (simp add: prod_eq_iff dtor_outcome dtor_state Flush_inactive)

theorem inactive_registry_drops_witness:
  "LogMessage_logger (Shutdown console_state) = None \<and>
   LogMessage_dtor \<lparr>severity = LOG_LEVEL_ERROR, source_file = ''main.cpp'', source_line = 7,
                    message = ''late''\<rparr> example_environment (Shutdown console_state)
     = (Returned, Shutdown console_state)"
  using inactive_registry_drops
    [where st = "Shutdown console_state" and e = example_environment
       and m = "\<lparr>severity = LOG_LEVEL_ERROR, source_file = ''main.cpp'', source_line = 7,
          message = ''late''\<rparr>"]
  by (simp add: Shutdown_def console_state_def Init_def no_failure_def initial_state_def
      Logger_Flush_def)

text \<open>
  A FATAL record with a message, finalized before any \<^verbatim>\<open>Init\<close>: the call does not
  return.
\<close>

theorem inactive_registry_fatal:
  "LogMessage_logger initial_state = None \<and>
   LogMessage_dtor \<lparr>severity = LOG_LEVEL_FATAL, source_file = ''main.cpp'', source_line = 7,
                    message = ''early''\<rparr> example_environment initial_state
     \<noteq> (Returned, initial_state)"
  by (simp add: initial_state_def LogMessage_dtor_def LogMessage_Flush_def)

section \<open>Conditional logging\<close>

lemma LOG_IF_ill_formed: "LOG_IF sev condition f l args e us = None"
  by (simp add: LOG_IF_def)

text \<open>
  C6. The claim is what the conditional macros are written for, and the code misses it:
  the expansion has \<^verbatim>\<open>(void)0\<close> for its second operand and an expression of type
  \<^verbatim>\<open>LogMessage&\<close> for its third, so it is not a well-formed conditional expression. The
  statement \<^verbatim>\<open>LOG_INFO_IF(!condition) << "..."\<close> of \<^verbatim>\<open>test_base_log.cpp\<close>, whose
  condition is false, has no result at all: it does not compile, whatever the condition
  and the arguments are.
\<close>

theorem conditional_log_ill_formed:
  "LOG_IF LOG_LEVEL_INFO False ''test_base_log.cpp'' 26 [probe] example_environment
     (0, console_state) = None"
  by (rule LOG_IF_ill_formed)

section \<open>Routing, the minimum level and the flush\<close>

lemma level_num_le_critical: "level_num l \<le> 5 \<longleftrightarrow> l \<noteq> off"
  by (cases l) simp_all

lemma sink_lines_log: "sink_lines (sink_log l s) = sink_lines s @ [l]"
  by (simp add: sink_lines_def sink_log_def)

lemma sink_lines_flush: "sink_lines (sink_flush s) = sink_lines s"
  by (simp add: sink_lines_def sink_flush_def)

lemma logger_log_lines:
  "map sink_lines (sinks (logger_log lvl l lg)) =
     (if should_log lg lvl then map (\<lambda>s. sink_lines s @ [l]) (sinks lg)
      else map sink_lines (sinks lg))"
  by (simp add: logger_log_def logger_flush_def Let_def sink_lines_log sink_lines_flush comp_def)

lemma Flush_active:
  "LogMessage_logger st = Some lg \<Longrightarrow>
     LogMessage_Flush m e st =
       st\<lparr>LogMessage_logger := Some (logger_log (spdlog_level (severity m)) (formatted_msg m e) lg),
          effects := effects st @
            [ClockRead, ThreadHashed, Rendered (formatted_msg m e),
             Passed (spdlog_level (severity m)) (formatted_msg m e)]\<rparr>"
  by (simp add: LogMessage_Flush_def)

lemma logger_log_rejected: "\<not> should_log lg lvl \<Longrightarrow> logger_log lvl l lg = lg"
  by (simp add: logger_log_def)

lemma logger_log_flushed:
  "should_log lg lvl \<Longrightarrow> should_flush lg lvl \<Longrightarrow>
     logger_log lvl l lg = lg\<lparr>sinks := map (sink_flush \<circ> sink_log l) (sinks lg)\<rparr>"
  by (simp add: logger_log_def logger_flush_def Let_def)

lemma SetLevel_active:
  "LogMessage_logger st = Some lg \<Longrightarrow>
     LogMessage_logger (SetLevel lvl st) = Some (lg\<lparr>level := lvl\<rparr>)"
  by (simp add: SetLevel_def)

lemma dtor_lines:
  assumes "LogMessage_logger st = Some lg" and "message m \<noteq> []"
  shows "\<exists>lg'. LogMessage_logger (snd (LogMessage_dtor m e st)) = Some lg' \<and>
           map sink_lines (sinks lg') =
             (if level_num (level lg) \<le> level_num (spdlog_level (severity m))
              then map (\<lambda>s. sink_lines s @ [formatted_msg m e]) (sinks lg)
              else map sink_lines (sinks lg))"
  using assms by (simp add: dtor_state Flush_active logger_log_lines should_log_def)

lemma file_state_logger:
  "LogMessage_logger file_state =
     Some \<lparr>logger_name = ''snow_logger'',
           sinks = [\<lparr>kind = stdout_color_sink, pattern = ''%v'', pending = [], durable = []\<rparr>,
                    \<lparr>kind = rotating_file_sink ''app.log'' 1048576 3, pattern = ''%v'',
                     pending = [], durable = []\<rparr>],
           level = info, flush_level = warn\<rparr>"
  by (simp add: file_state_def Init_def no_failure_def initial_state_def Let_def new_sink_def
      set_pattern_def)

lemma pending_state_logger:
  "LogMessage_logger pending_state =
     Some \<lparr>logger_name = ''snow_logger'',
           sinks = [\<lparr>kind = stdout_color_sink, pattern = ''%v'',
                     pending = [formatted_msg info_message example_environment], durable = []\<rparr>,
                    \<lparr>kind = rotating_file_sink ''app.log'' 1048576 3, pattern = ''%v'',
                     pending = [formatted_msg info_message example_environment], durable = []\<rparr>],
           level = info, flush_level = warn\<rparr>"
  by (simp add: pending_state_def dtor_state Flush_active [OF file_state_logger]
      info_message_def logger_log_def should_log_def should_flush_def sink_log_def)

text \<open>
  C2, as the code has it. Finalizing a FATAL record ends in \<^verbatim>\<open>std::abort\<close> in every
  state and with every sink configuration: control does not return. When a logger is
  active, the message is not empty and neither the minimum level nor the flush level of
  the logger is \<open>off\<close>, the line has been routed to every sink and every sink has been
  flushed when the process ends.
\<close>

theorem fatal_terminates:
  "severity m = LOG_LEVEL_FATAL \<Longrightarrow>
     fst (LogMessage_dtor m e st) = Aborted \<and>
     (\<forall>lg. LogMessage_logger st = Some lg \<and> message m \<noteq> [] \<and> level lg \<noteq> off
            \<and> flush_level lg \<noteq> off \<longrightarrow>
        LogMessage_logger (snd (LogMessage_dtor m e st)) =
          Some (lg\<lparr>sinks := map (sink_flush \<circ> sink_log (formatted_msg m e)) (sinks lg)\<rparr>)
        \<and> all_flushed (snd (LogMessage_dtor m e st)))"
proof (intro conjI allI impI)
  assume "severity m = LOG_LEVEL_FATAL"
  then show "fst (LogMessage_dtor m e st) = Aborted" by (simp add: dtor_outcome)
next
  fix lg
  assume fatal: "severity m = LOG_LEVEL_FATAL"
    and a: "LogMessage_logger st = Some lg \<and> message m \<noteq> [] \<and> level lg \<noteq> off \<and> flush_level lg \<noteq> off"
  have adm: "should_log lg critical" "should_flush lg critical"
    using a by (simp_all add: should_log_def should_flush_def level_num_le_critical)
  show r: "LogMessage_logger (snd (LogMessage_dtor m e st)) =
          Some (lg\<lparr>sinks := map (sink_flush \<circ> sink_log (formatted_msg m e)) (sinks lg)\<rparr>)"
    using a fatal adm by (simp add: dtor_state Flush_active logger_log_flushed)
  show "all_flushed (snd (LogMessage_dtor m e st))"
    unfolding all_flushed_def r by (simp add: list_all_iff sink_flush_def)
qed

theorem fatal_terminates_witness:
  "severity fatal_message = LOG_LEVEL_FATAL \<and>
   fst (LogMessage_dtor fatal_message example_environment pending_state) = Aborted \<and>
   all_flushed (snd (LogMessage_dtor fatal_message example_environment pending_state)) \<and>
   map_option (map durable \<circ> sinks)
     (LogMessage_logger (snd (LogMessage_dtor fatal_message example_environment pending_state)))
   = Some [[formatted_msg info_message example_environment,
            formatted_msg fatal_message example_environment],
           [formatted_msg info_message example_environment,
            formatted_msg fatal_message example_environment]]"
proof -
  have f: "severity fatal_message = LOG_LEVEL_FATAL" by (simp add: fatal_message_def)
  have m: "message fatal_message \<noteq> []" by (simp add: fatal_message_def)
  from fatal_terminates [OF f, of example_environment pending_state] pending_state_logger m
  show ?thesis by (simp add: f sink_flush_def sink_log_def)
qed

text \<open>
  A FATAL record with an empty buffer, finalized while the sinks hold an INFO line that
  no flush has forced out yet: the process is aborted and the line is still pending.
\<close>

theorem fatal_empty_not_flushed:
  "fst (LogMessage_dtor (LogMessage_ctor LOG_LEVEL_FATAL ''src/main.cpp'' 57)
          example_environment pending_state) = Aborted \<and>
   \<not> all_flushed (snd (LogMessage_dtor (LogMessage_ctor LOG_LEVEL_FATAL ''src/main.cpp'' 57)
                         example_environment pending_state))"
  by (simp add: dtor_outcome dtor_state LogMessage_ctor_def all_flushed_def pending_state_logger)

text \<open>
  C5. On an active logger and for a record with a message: after \<^verbatim>\<open>SetLevel(err)\<close> a
  WARNING record leaves the logger and its sinks as they were, and an ERROR record adds
  its line to every sink; in general every sink receives the line if the level of the
  record meets the minimum level of the logger, and no sink receives anything otherwise.
\<close>

theorem admitted_iff_minimum:
  assumes "LogMessage_logger st = Some lg" and "message m \<noteq> []"
  shows "(severity m = LOG_LEVEL_WARNING \<longrightarrow>
            LogMessage_logger (snd (LogMessage_dtor m e (SetLevel err st)))
              = LogMessage_logger (SetLevel err st)) \<and>
         (severity m = LOG_LEVEL_ERROR \<longrightarrow>
            (\<exists>lg'. LogMessage_logger (snd (LogMessage_dtor m e (SetLevel err st))) = Some lg' \<and>
               map sink_lines (sinks lg') =
                 map (\<lambda>s. sink_lines s @ [formatted_msg m e]) (sinks lg))) \<and>
         (\<exists>lg'. LogMessage_logger (snd (LogMessage_dtor m e st)) = Some lg' \<and>
            map sink_lines (sinks lg') =
              (if level_num (level lg) \<le> level_num (spdlog_level (severity m))
               then map (\<lambda>s. sink_lines s @ [formatted_msg m e]) (sinks lg)
               else map sink_lines (sinks lg)))"
proof (intro conjI impI)
  assume w: "severity m = LOG_LEVEL_WARNING"
  have "\<not> should_log (lg\<lparr>level := err\<rparr>) (spdlog_level (severity m))"
    using w by (simp add: should_log_def)
  then show "LogMessage_logger (snd (LogMessage_dtor m e (SetLevel err st)))
              = LogMessage_logger (SetLevel err st)"
    using assms
    by (simp add: dtor_state Flush_active [OF SetLevel_active] SetLevel_active logger_log_rejected)
next
  assume er: "severity m = LOG_LEVEL_ERROR"
  from dtor_lines [OF SetLevel_active [OF assms(1), of err] assms(2), of e] er
  show "\<exists>lg'. LogMessage_logger (snd (LogMessage_dtor m e (SetLevel err st))) = Some lg' \<and>
               map sink_lines (sinks lg') =
                 map (\<lambda>s. sink_lines s @ [formatted_msg m e]) (sinks lg)"
    by simp
next
  from dtor_lines [OF assms]
  show "\<exists>lg'. LogMessage_logger (snd (LogMessage_dtor m e st)) = Some lg' \<and>
            map sink_lines (sinks lg') =
              (if level_num (level lg) \<le> level_num (spdlog_level (severity m))
               then map (\<lambda>s. sink_lines s @ [formatted_msg m e]) (sinks lg)
               else map sink_lines (sinks lg))" .
qed

theorem admitted_iff_minimum_witness:
  "map_option (map sink_lines \<circ> sinks)
     (LogMessage_logger (snd (LogMessage_dtor warning_message example_environment (SetLevel err file_state))))
     = Some [[], []] \<and>
   map_option (map sink_lines \<circ> sinks)
     (LogMessage_logger (snd (LogMessage_dtor error_message example_environment (SetLevel err file_state))))
     = Some [[formatted_msg error_message example_environment],
             [formatted_msg error_message example_environment]]"
proof -
  have m: "message warning_message \<noteq> []" "message error_message \<noteq> []"
    by (simp_all add: warning_message_def error_message_def)
  have s: "severity warning_message = LOG_LEVEL_WARNING" "severity error_message = LOG_LEVEL_ERROR"
    by (simp_all add: warning_message_def error_message_def)
  from admitted_iff_minimum [OF file_state_logger m(1), of example_environment] s(1)
  have "LogMessage_logger (snd (LogMessage_dtor warning_message example_environment (SetLevel err file_state)))
          = LogMessage_logger (SetLevel err file_state)" by blast
  moreover
  from admitted_iff_minimum [OF file_state_logger m(2), of example_environment] s(2)
  obtain lg' where "LogMessage_logger (snd (LogMessage_dtor error_message example_environment (SetLevel err file_state))) = Some lg'"
    and "map sink_lines (sinks lg') = [[formatted_msg error_message example_environment],
             [formatted_msg error_message example_environment]]"
    by (auto simp: sink_lines_def)
  ultimately show ?thesis
    by (simp add: SetLevel_def file_state_logger sink_lines_def)
qed

text \<open>
  C8, as the code has it. A record with a message whose level is below the minimum of
  the active logger reaches no sink: the logger is as it was. But the admission check is
  the logger's, and \<^verbatim>\<open>LogMessage::Flush\<close> calls it last: the clock has been read, the
  thread identifier hashed and the line built before the record is rejected.
\<close>

theorem rejected_record_is_formatted_first:
  "LogMessage_logger st = Some lg \<Longrightarrow> message m \<noteq> [] \<Longrightarrow>
   \<not> should_log lg (spdlog_level (severity m)) \<Longrightarrow>
     snd (LogMessage_dtor m e st) =
       st\<lparr>effects := effects st @
            [ClockRead, ThreadHashed, Rendered (formatted_msg m e),
             Passed (spdlog_level (severity m)) (formatted_msg m e)]\<rparr>"
  by (simp add: dtor_state Flush_active logger_log_rejected)

theorem rejected_record_is_formatted_first_witness:
  "map_option level (LogMessage_logger (SetLevel err file_state)) = Some err \<and>
   \<not> level_num err \<le> level_num (spdlog_level (severity warning_message)) \<and>
   snd (LogMessage_dtor warning_message example_environment (SetLevel err file_state)) =
     (SetLevel err file_state)\<lparr>effects :=
        [ClockRead, ThreadHashed, Rendered (formatted_msg warning_message example_environment),
         Passed warn (formatted_msg warning_message example_environment)]\<rparr>"
proof -
  have m: "message warning_message \<noteq> []" by (simp add: warning_message_def)
  have r: "\<not> should_log (the (LogMessage_logger (SetLevel err file_state)))
                (spdlog_level (severity warning_message))"
    by (simp add: should_log_def SetLevel_def file_state_logger warning_message_def)
  have a: "LogMessage_logger (SetLevel err file_state)
             = Some (the (LogMessage_logger (SetLevel err file_state)))"
    by (simp add: SetLevel_def file_state_logger)
  have e: "effects (SetLevel err file_state) = []"
    by (simp add: SetLevel_def file_state_logger file_state_def Init_def no_failure_def
        initial_state_def Let_def)
  from rejected_record_is_formatted_first [OF a m r, of example_environment] e
  show ?thesis
    by (simp add: SetLevel_def file_state_logger warning_message_def)
qed

text \<open>
  A WARNING record on a logger whose minimum is \<open>err\<close>: it is rejected, and the steps of
  the formatter have run.
\<close>

theorem rejected_record_formatting_cost:
  "map_option level (LogMessage_logger (SetLevel err file_state)) = Some err \<and>
   \<not> level_num err \<le> level_num (spdlog_level (severity warning_message)) \<and>
   effects (SetLevel err file_state) = [] \<and>
   effects (snd (LogMessage_dtor warning_message example_environment (SetLevel err file_state)))
     = [ClockRead, ThreadHashed, Rendered (formatted_msg warning_message example_environment),
        Passed warn (formatted_msg warning_message example_environment)]"
  by (simp add: SetLevel_def file_state_logger warning_message_def dtor_state
      LogMessage_Flush_def file_state_def Init_def no_failure_def initial_state_def Let_def)

section \<open>\<^verbatim>\<open>Init\<close>\<close>








section \<open>The layout of a line\<close>

lemma below_ten: "(k::nat) < 10 \<longleftrightarrow> k \<in> {0, 1, 2, 3, 4, 5, 6, 7, 8, 9}"
  by auto

lemma digit_char_cases:
  "digit_char d \<in> set ''0123456789'' \<and> digit_value (digit_char d) = d mod 10"
proof -
  have "d mod 10 < 10" by simp
  then have "d mod 10 \<in> {0, 1, 2, 3, 4, 5, 6, 7, 8, 9}" by (simp only: below_ten)
  then show ?thesis unfolding digit_char_def by (auto simp: digit_value_def)
qed

lemma digit_char_is_digit: "in_class Digit (digit_char d)"
  using digit_char_cases [of d] by simp

lemma digit_value_digit_char: "digit_value (digit_char d) = d mod 10"
  using digit_char_cases [of d] by simp

lemma digit_value_zero: "digit_value CHR ''0'' = 0"
  by (simp add: digit_value_def)

lemma zero_is_digit: "in_class Digit CHR ''0''"
  by simp

lemma dec_value_snoc: "dec_value (s @ [c]) = 10 * dec_value s + digit_value c"
  by (simp add: dec_value_def)

lemma dec_value_zeros: "dec_value (replicate k CHR ''0'' @ s) = dec_value s"
proof -
  have z: "foldl (\<lambda>a c. 10 * a + digit_value c) 0 (replicate k CHR ''0'') = 0"
    by (induction k) (simp_all add: digit_value_zero)
  show ?thesis by (simp add: dec_value_def z)
qed

lemma dec_nat_digits: "list_all (in_class Digit) (dec_nat n)"
proof (induction n rule: dec_nat.induct)
  case (1 n)
  then show ?case
    by (subst dec_nat.simps) (simp add: digit_char_is_digit del: in_class.simps)
qed

lemma dec_nat_nonempty: "dec_nat n \<noteq> []"
  by (subst dec_nat.simps) simp

lemma dec_nat_value: "dec_value (dec_nat n) = n"
proof (induction n rule: dec_nat.induct)
  case (1 n)
  show ?case
  proof (cases "n < 10")
    case True
    then show ?thesis
      by (subst dec_nat.simps) (simp add: dec_value_def digit_value_digit_char)
  next
    case False
    with 1 have "dec_value (dec_nat (n div 10)) = n div 10" by simp
    with False show ?thesis
      by (subst dec_nat.simps) (simp add: dec_value_snoc digit_value_digit_char)
  qed
qed

lemma dec_nat_length: "0 < w \<Longrightarrow> n < 10 ^ w \<Longrightarrow> length (dec_nat n) \<le> w"
proof (induction n arbitrary: w rule: dec_nat.induct)
  case (1 n)
  show ?case
  proof (cases "n < 10")
    case True
    with "1.prems" show ?thesis by (subst dec_nat.simps) simp
  next
    case False
    have w: "1 < w"
    proof (rule ccontr)
      assume "\<not> 1 < w"
      with "1.prems"(1) have "w = 1" by simp
      with "1.prems"(2) False show False by simp
    qed
    then obtain v where v: "w = Suc v" "0 < v" by (cases w) auto
    with "1.prems" have "n div 10 < 10 ^ v" by (simp add: less_mult_imp_div_less)
    with "1.IH" [OF False v(2)] have "length (dec_nat (n div 10)) \<le> v" by simp
    with False v show ?thesis by (subst dec_nat.simps) simp
  qed
qed

lemma zeros_digits: "list_all (in_class Digit) (replicate k CHR ''0'')"
  by (induction k) (simp_all add: zero_is_digit del: in_class.simps)

lemma printf_0d_padded:
  assumes "0 < w" and "0 \<le> i" and "i < 10 ^ w"
  shows "zero_padded w i (printf_0d w i)"
proof -
  from assms have "nat i < 10 ^ w" by (simp add: nat_less_iff)
  with assms(1) have "length (dec_nat (nat i)) \<le> w" by (rule dec_nat_length)
  with assms(2) show ?thesis
    by (simp add: zero_padded_def printf_0d_def dec_nat_digits dec_value_zeros dec_nat_value
        zeros_digits del: in_class.simps)
qed

lemma cpp_rem_range: "0 \<le> a \<Longrightarrow> 0 \<le> cpp_rem a 1000000 \<and> cpp_rem a 1000000 < 1000000"
  by (simp add: cpp_rem_def sgn_if)

lemma matches_Nothing: "\<not> matches Nothing w"
  by (induction w) simp_all

lemma matches_Alt: "matches (Alt r s) w \<longleftrightarrow> matches r w \<or> matches s w"
  by (induction w arbitrary: r s) simp_all

lemma matches_Seq_nullable: "nullable r \<Longrightarrow> matches s v \<Longrightarrow> matches (Seq r s) v"
  by (cases v) (simp_all add: matches_Alt)

lemma matches_Seq: "matches r u \<Longrightarrow> matches s v \<Longrightarrow> matches (Seq r s) (u @ v)"
proof (induction u arbitrary: r)
  case Nil
  then show ?case by (simp add: matches_Seq_nullable)
next
  case (Cons c u)
  then have "matches (Seq (deriv c r) s) (u @ v)" by simp
  then show ?case by (simp add: matches_Alt)
qed

lemma matches_Sym: "in_class k c \<Longrightarrow> matches (Sym k) [c]"
  by simp

lemma matches_Star_class: "list_all (in_class k) w \<Longrightarrow> matches (Star (Sym k)) w"
proof (induction w)
  case Nil
  then show ?case by simp
next
  case (Cons c w)
  then have "matches (Seq Empty (Star (Sym k))) ([] @ w)"
    by (intro matches_Seq) simp_all
  with Cons.prems show ?case by simp
qed

lemma matches_Plus_class: "w \<noteq> [] \<Longrightarrow> list_all (in_class k) w \<Longrightarrow> matches (Plus (Sym k)) w"
proof (cases w)
  case Nil
  assume "w \<noteq> []" with Nil show ?thesis by simp
next
  case (Cons c v)
  assume "list_all (in_class k) w"
  with Cons have "matches (Sym k) [c]" "matches (Star (Sym k)) v"
    by (simp_all add: matches_Star_class)
  then have "matches (Seq (Sym k) (Star (Sym k))) ([c] @ v)" by (rule matches_Seq)
  with Cons show ?thesis by (simp add: Plus_def)
qed

lemma matches_Times_class:
  "length w = n \<Longrightarrow> list_all (in_class k) w \<Longrightarrow> matches (Times n (Sym k)) w"
proof (induction n arbitrary: w)
  case 0
  then show ?case by simp
next
  case (Suc n)
  then obtain c v where w: "w = c # v" by (cases w) auto
  with Suc have "matches (Sym k) [c]" "matches (Times n (Sym k)) v" by simp_all
  then have "matches (Seq (Sym k) (Times n (Sym k))) ([c] @ v)" by (rule matches_Seq)
  with w show ?case by simp
qed

lemma matches_seqs: "list_all2 matches rs ws \<Longrightarrow> matches (seqs rs) (concat ws)"
proof (induction rule: list_all2_induct)
  case Nil
  show ?case by simp
next
  case (Cons r rs w ws)
  then have "matches (Seq r (seqs rs)) (w @ concat ws)" by (intro matches_Seq)
  then show ?case by simp
qed

lemma level_char_class: "in_class (OneOf ''IWEF'') (level_char sev)"
  by (cases sev) simp_all

lemma filename_class: "list_all (in_class (NoneOf separators)) (filename f)"
  using filename_no_separator [of f] by (auto simp: list_all_iff)

lemma message_class: "CHR 0x0A \<notin> set s \<Longrightarrow> list_all (in_class AnyChar) s"
  by (auto simp: list_all_iff)

lemma time_fields:
  assumes "tm_in_range t" and "0 \<le> us" and "us < 1000000"
  shows "zero_padded 4 (tm_year t + 1900) (printf_0d 4 (tm_year t + 1900))"
    and "zero_padded 2 (tm_mon t + 1) (printf_0d 2 (tm_mon t + 1))"
    and "zero_padded 2 (tm_mday t) (printf_0d 2 (tm_mday t))"
    and "zero_padded 2 (tm_hour t) (printf_0d 2 (tm_hour t))"
    and "zero_padded 2 (tm_min t) (printf_0d 2 (tm_min t))"
    and "zero_padded 2 (tm_sec t) (printf_0d 2 (tm_sec t))"
    and "zero_padded 6 us (printf_0d 6 us)"
  using assms by (simp_all add: tm_in_range_def printf_0d_padded)

lemma time_str_full:
  assumes "tm_in_range t" and "0 \<le> us" and "us < 1000000"
  shows "time_str t us =
       printf_0d 4 (tm_year t + 1900) @ printf_0d 2 (tm_mon t + 1) @ printf_0d 2 (tm_mday t)
        @ '' '' @ printf_0d 2 (tm_hour t) @ '':'' @ printf_0d 2 (tm_min t) @ '':''
        @ printf_0d 2 (tm_sec t) @ ''.'' @ printf_0d 6 us"
  using time_fields [OF assms] by (simp add: time_str_def zero_padded_def)

lemma padded_Times: "zero_padded w i s \<Longrightarrow> matches (Times w (Sym Digit)) s"
  by (simp add: zero_padded_def matches_Times_class del: in_class.simps)

lemma date_Times:
  "zero_padded 4 i y \<Longrightarrow> zero_padded 2 j mo \<Longrightarrow> zero_padded 2 k d \<Longrightarrow>
     matches (Times 8 (Sym Digit)) (y @ mo @ d)"
  by (rule matches_Times_class) (simp_all add: zero_padded_def del: in_class.simps)

lemma dec_nat_Plus: "matches (Plus (Sym Digit)) (dec_nat n)"
  by (rule matches_Plus_class) (simp_all add: dec_nat_nonempty dec_nat_digits del: in_class.simps)

lemma layout_matches:
  assumes "tm_in_range t" and "0 \<le> us" and "us < 1000000"
    and "filename f \<noteq> []" and "0 \<le> l" and "CHR 0x0A \<notin> set msg"
  shows "matches layout_regex
     (level_char sev # (printf_0d 4 (tm_year t + 1900) @ printf_0d 2 (tm_mon t + 1) @ printf_0d 2 (tm_mday t)
        @ '' '' @ printf_0d 2 (tm_hour t) @ '':'' @ printf_0d 2 (tm_min t) @ '':''
        @ printf_0d 2 (tm_sec t) @ ''.'' @ printf_0d 6 us)
      @ '' '' @ dec_nat h @ '' '' @ filename f @ '':'' @ dec_int l @ ''] '' @ msg)"
proof -
  note tf = time_fields [OF assms(1-3)]
  have "list_all2 matches
     [Sym (OneOf ''IWEF''), Times 8 (Sym Digit), Sym (Lit CHR '' ''),
           Times 2 (Sym Digit), Sym (Lit CHR '':''), Times 2 (Sym Digit), Sym (Lit CHR '':''),
           Times 2 (Sym Digit), Sym (Lit CHR ''.''), Times 6 (Sym Digit), Sym (Lit CHR '' ''),
           Plus (Sym Digit), Sym (Lit CHR '' ''),
           Plus (Sym (NoneOf separators)), Sym (Lit CHR '':''), Plus (Sym Digit),
           Sym (Lit CHR '']''), Sym (Lit CHR '' ''),
           Star (Sym AnyChar)]
     [[level_char sev],
      printf_0d 4 (tm_year t + 1900) @ printf_0d 2 (tm_mon t + 1) @ printf_0d 2 (tm_mday t),
      '' '', printf_0d 2 (tm_hour t), '':'', printf_0d 2 (tm_min t), '':'',
      printf_0d 2 (tm_sec t), ''.'', printf_0d 6 us, '' '',
      dec_nat h, '' '', filename f, '':'', dec_nat (nat l), '']'', '' '', msg]"
    using assms(4,6)
    by (simp add: date_Times [OF tf(1-3)] padded_Times [OF tf(4)] padded_Times [OF tf(5)]
        padded_Times [OF tf(6)] padded_Times [OF tf(7)] dec_nat_Plus matches_Plus_class
        filename_class matches_Star_class message_class matches_Sym level_char_class
        del: in_class.simps matches.simps Times.simps)
       (simp add: matches_Sym)
  from matches_seqs [OF this] assms(5) show ?thesis
    by (simp add: layout_regex_def dec_int_def del: seqs.simps)
qed

lemma put_nat_plain: "grouping np = [] \<Longrightarrow> put_nat np n = dec_nat n"
  by (simp add: put_nat_def)

lemma put_int_plain: "grouping np = [] \<Longrightarrow> put_int np i = dec_int i"
  by (simp add: put_int_def dec_int_def put_nat_plain)

text \<open>
  C1, as the code has it. Let the local time be one that \<^verbatim>\<open>localtime_r\<close> gives for the
  years 0 to 9999, the clock not be before the epoch, and the global locale be one that
  does not group digits (its grouping is empty, as in the classic locale). Then the
  formatted message is exactly: the level character (I for INFO, W for WARNING, E for
  ERROR, F for FATAL), the year in 4 digits, the month and the day in 2 zero-padded
  digits each, a space, hours, minutes and seconds in 2 zero-padded digits each with
  colons between, a dot, the microseconds in 6 zero-padded digits, a space, the thread
  hash in decimal, a space, the name shown for the file, a colon, the line number in
  decimal, a bracket and a space, and the message. This is the line the active logger is
  handed when a record with a message is finalized. The line matches the layout
  expression when, moreover, the name shown for the file is not empty, the line number is
  not negative and the message has no line feed.
\<close>

theorem log_line_layout:
  assumes "tm_in_range (local_tm e)" and "0 \<le> now_us e"
    and "grouping (global_locale e) = []"
  shows
    "formatted_msg m e =
       level_char (severity m)
       # printf_0d 4 (tm_year (local_tm e) + 1900) @ printf_0d 2 (tm_mon (local_tm e) + 1)
       @ printf_0d 2 (tm_mday (local_tm e))
       @ '' '' @ printf_0d 2 (tm_hour (local_tm e)) @ '':'' @ printf_0d 2 (tm_min (local_tm e))
       @ '':'' @ printf_0d 2 (tm_sec (local_tm e)) @ ''.'' @ printf_0d 6 (now_us e mod 1000000)
       @ '' '' @ dec_nat (thread_hash e) @ '' ''
       @ filename (source_file m) @ '':'' @ dec_int (source_line m) @ ''] '' @ message m
     \<and> level_char (severity m) =
         (case severity m of
            LOG_LEVEL_INFO \<Rightarrow> CHR ''I'' | LOG_LEVEL_WARNING \<Rightarrow> CHR ''W''
          | LOG_LEVEL_ERROR \<Rightarrow> CHR ''E'' | LOG_LEVEL_FATAL \<Rightarrow> CHR ''F'')
     \<and> zero_padded 4 (tm_year (local_tm e) + 1900) (printf_0d 4 (tm_year (local_tm e) + 1900))
     \<and> zero_padded 2 (tm_mon (local_tm e) + 1) (printf_0d 2 (tm_mon (local_tm e) + 1))
     \<and> zero_padded 2 (tm_mday (local_tm e)) (printf_0d 2 (tm_mday (local_tm e)))
     \<and> zero_padded 2 (tm_hour (local_tm e)) (printf_0d 2 (tm_hour (local_tm e)))
     \<and> zero_padded 2 (tm_min (local_tm e)) (printf_0d 2 (tm_min (local_tm e)))
     \<and> zero_padded 2 (tm_sec (local_tm e)) (printf_0d 2 (tm_sec (local_tm e)))
     \<and> zero_padded 6 (now_us e mod 1000000) (printf_0d 6 (now_us e mod 1000000))
     \<and> list_all (in_class Digit) (dec_nat (thread_hash e))
     \<and> dec_value (dec_nat (thread_hash e)) = thread_hash e
     \<and> (0 \<le> source_line m \<longrightarrow>
          list_all (in_class Digit) (dec_int (source_line m))
          \<and> int (dec_value (dec_int (source_line m))) = source_line m)
     \<and> (filename (source_file m) \<noteq> [] \<and> 0 \<le> source_line m \<and> CHR 0x0A \<notin> set (message m) \<longrightarrow>
          matches layout_regex (formatted_msg m e))
     \<and> (\<forall>st lg. LogMessage_logger st = Some lg \<and> message m \<noteq> [] \<longrightarrow>
          LogMessage_logger (snd (LogMessage_dtor m e st)) =
            Some (logger_log (spdlog_level (severity m)) (formatted_msg m e) lg))"
proof -
  have rem: "cpp_rem (now_us e) 1000000 = now_us e mod 1000000"
    using assms(2) by (simp add: cpp_rem_def sgn_if)
  have us: "0 \<le> now_us e mod 1000000" "now_us e mod 1000000 < 1000000" by simp_all
  note tf = time_fields [OF assms(1) us]
  have line: "formatted_msg m e =
       level_char (severity m)
       # (printf_0d 4 (tm_year (local_tm e) + 1900) @ printf_0d 2 (tm_mon (local_tm e) + 1)
       @ printf_0d 2 (tm_mday (local_tm e))
       @ '' '' @ printf_0d 2 (tm_hour (local_tm e)) @ '':'' @ printf_0d 2 (tm_min (local_tm e))
       @ '':'' @ printf_0d 2 (tm_sec (local_tm e)) @ ''.'' @ printf_0d 6 (now_us e mod 1000000))
       @ '' '' @ dec_nat (thread_hash e) @ '' ''
       @ filename (source_file m) @ '':'' @ dec_int (source_line m) @ ''] '' @ message m"
    by (simp add: formatted_msg_def rem time_str_full [OF assms(1) us]
        put_nat_plain [OF assms(3)] put_int_plain [OF assms(3)])
  have lc: "level_char (severity m) =
         (case severity m of
            LOG_LEVEL_INFO \<Rightarrow> CHR ''I'' | LOG_LEVEL_WARNING \<Rightarrow> CHR ''W''
          | LOG_LEVEL_ERROR \<Rightarrow> CHR ''E'' | LOG_LEVEL_FATAL \<Rightarrow> CHR ''F'')"
    by (cases "severity m") simp_all
  have ln: "0 \<le> source_line m \<longrightarrow>
          list_all (in_class Digit) (dec_int (source_line m))
          \<and> int (dec_value (dec_int (source_line m))) = source_line m"
    by (simp add: dec_int_def dec_nat_digits dec_nat_value del: in_class.simps)
  have re: "filename (source_file m) \<noteq> [] \<and> 0 \<le> source_line m \<and> CHR 0x0A \<notin> set (message m)
      \<longrightarrow> matches layout_regex (formatted_msg m e)"
    unfolding line using layout_matches [OF assms(1) us] by blast
  have pass: "\<forall>st lg. LogMessage_logger st = Some lg \<and> message m \<noteq> [] \<longrightarrow>
          LogMessage_logger (snd (LogMessage_dtor m e st)) =
            Some (logger_log (spdlog_level (severity m)) (formatted_msg m e) lg)"
    by (simp add: dtor_state Flush_active)
  from line have line': "formatted_msg m e =
       level_char (severity m)
       # printf_0d 4 (tm_year (local_tm e) + 1900) @ printf_0d 2 (tm_mon (local_tm e) + 1)
       @ printf_0d 2 (tm_mday (local_tm e))
       @ '' '' @ printf_0d 2 (tm_hour (local_tm e)) @ '':'' @ printf_0d 2 (tm_min (local_tm e))
       @ '':'' @ printf_0d 2 (tm_sec (local_tm e)) @ ''.'' @ printf_0d 6 (now_us e mod 1000000)
       @ '' '' @ dec_nat (thread_hash e) @ '' ''
       @ filename (source_file m) @ '':'' @ dec_int (source_line m) @ ''] '' @ message m"
    by simp
  show ?thesis
    using line' lc tf dec_nat_digits [of "thread_hash e"] dec_nat_value [of "thread_hash e"]
      ln re pass
    by (intro conjI) assumption+
qed

lemmas formatter_defs =
  formatted_msg_def time_str_def printf_0d_def dec_nat.simps dec_int_def put_nat_def put_int_def
  cpp_rem_def filename_def separators_def digit_char_def example_environment_def

lemma example_line:
  "formatted_msg info_message example_environment
     = ''I20231224 09:30:45.123456 12345 main.cpp:42] started''"
  by (simp add: formatter_defs info_message_def)

theorem log_line_layout_witness:
  "tm_in_range (local_tm example_environment) \<and> 0 \<le> now_us example_environment \<and>
   grouping (global_locale example_environment) = [] \<and>
   filename (source_file info_message) \<noteq> [] \<and> 0 \<le> source_line info_message \<and>
   CHR 0x0A \<notin> set (message info_message) \<and>
   formatted_msg info_message example_environment
     = ''I20231224 09:30:45.123456 12345 main.cpp:42] started'' \<and>
   matches layout_regex ''I20231224 09:30:45.123456 12345 main.cpp:42] started'' \<and>
   message info_message \<noteq> [] \<and>
   map_option (map sink_lines \<circ> sinks)
     (LogMessage_logger (snd (LogMessage_dtor info_message example_environment file_state)))
     = Some [[''I20231224 09:30:45.123456 12345 main.cpp:42] started''],
             [''I20231224 09:30:45.123456 12345 main.cpp:42] started'']]"
proof -
  have t: "tm_in_range (local_tm example_environment)"
    by (simp add: example_environment_def tm_in_range_def)
  have n: "0 \<le> now_us example_environment" by (simp add: example_environment_def)
  have g: "grouping (global_locale example_environment) = []"
    by (simp add: example_environment_def)
  have h: "filename (source_file info_message) \<noteq> [] \<and> 0 \<le> source_line info_message \<and>
     CHR 0x0A \<notin> set (message info_message)"
    by (simp add: info_message_def filename_def separators_def)
  have ne: "message info_message \<noteq> []" by (simp add: info_message_def)
  note layout = log_line_layout [OF t n g, of info_message]
  from layout h
  have a: "matches layout_regex (formatted_msg info_message example_environment)" by blast
  from layout file_state_logger ne
  have "LogMessage_logger (snd (LogMessage_dtor info_message example_environment file_state)) =
      Some (logger_log (spdlog_level (severity info_message))
              (formatted_msg info_message example_environment)
              \<lparr>logger_name = ''snow_logger'',
               sinks = [\<lparr>kind = stdout_color_sink, pattern = ''%v'', pending = [], durable = []\<rparr>,
                        \<lparr>kind = rotating_file_sink ''app.log'' 1048576 3, pattern = ''%v'',
                         pending = [], durable = []\<rparr>],
               level = info, flush_level = warn\<rparr>)"
    by blast
  then have b: "map_option (map sink_lines \<circ> sinks)
     (LogMessage_logger (snd (LogMessage_dtor info_message example_environment file_state)))
     = Some [[formatted_msg info_message example_environment],
             [formatted_msg info_message example_environment]]"
    by (simp add: logger_log_lines should_log_def info_message_def sink_lines_def)
  from t n g h ne a b show ?thesis by (simp only: example_line) simp
qed

lemma regex_defs:
  "layout_regex =
     Seq (Sym (OneOf ''IWEF'')) (Seq (Times 8 (Sym Digit)) (Seq (Sym (Lit CHR '' ''))
      (Seq (Times 2 (Sym Digit)) (Seq (Sym (Lit CHR '':'')) (Seq (Times 2 (Sym Digit))
      (Seq (Sym (Lit CHR '':'')) (Seq (Times 2 (Sym Digit)) (Seq (Sym (Lit CHR ''.''))
      (Seq (Times 6 (Sym Digit)) (Seq (Sym (Lit CHR '' '')) (Seq (Seq (Sym Digit) (Star (Sym Digit)))
      (Seq (Sym (Lit CHR '' ''))
      (Seq (Seq (Sym (NoneOf [CHR ''/'', CHR 0x5C])) (Star (Sym (NoneOf [CHR ''/'', CHR 0x5C]))))
      (Seq (Sym (Lit CHR '':'')) (Seq (Seq (Sym Digit) (Star (Sym Digit)))
      (Seq (Sym (Lit CHR '']'')) (Seq (Sym (Lit CHR '' '')) (Seq (Star (Sym AnyChar)) Empty))))))))))))))))))"
  by (simp add: layout_regex_def Plus_def separators_def)

lemma trailing_separator_line:
  "formatted_msg trailing_separator_message example_environment
     = ''I20231224 09:30:45.123456 12345 :42] started''"
  by (simp add: formatter_defs trailing_separator_message_def)

lemma grouped_line:
  "formatted_msg grouped_line_message grouping_environment
     = ''I20231224 09:30:45.123456 12,345 main.cpp:1,234] started''"
  by (simp add: formatter_defs grouped_line_message_def grouping_environment_def)

lemma negative_line:
  "formatted_msg negative_line_message example_environment
     = ''I20231224 09:30:45.123456 12345 main.cpp:-1] started''"
  by (simp add: formatter_defs negative_line_message_def)

lemma line_feed_line:
  "formatted_msg line_feed_message example_environment
     = ''I20231224 09:30:45.123456 12345 main.cpp:42] a'' @ [CHR 0x0A] @ ''b''"
  by (simp add: formatter_defs line_feed_message_def)

lemma far_future_line:
  "formatted_msg info_message far_future_environment
     = ''I100001224 09:30:45.123456 12345 main.cpp:42] started''"
  by (simp add: formatter_defs info_message_def far_future_environment_def)

lemma four_zeros: "replicate 4 CHR ''0'' = ''0000''"
  by (simp add: numeral_eq_Suc)

lemma before_epoch_line:
  "formatted_msg info_message before_epoch_environment
     = ''I19691231 23:59:59.-00001 12345 main.cpp:42] started''"
  by (simp add: formatter_defs info_message_def before_epoch_environment_def four_zeros)

text \<open>
  Records of severity INFO with a message, one for each condition above. A file path
  that ends in a separator: the name shown is empty. A locale that groups digits by
  three: the thread hash and the line number are not in plain decimal. A negative line
  number. A message with a line feed. The year 10000: the year has five digits. A clock
  one microsecond before the epoch: the microseconds are negative. None of the lines
  matches the layout expression.
\<close>

theorem layout_regex_empty_base_name:
  "tm_in_range (local_tm example_environment) \<and> 0 \<le> now_us example_environment \<and>
   grouping (global_locale example_environment) = [] \<and>
   message trailing_separator_message \<noteq> [] \<and>
   formatted_msg trailing_separator_message example_environment
     = ''I20231224 09:30:45.123456 12345 :42] started'' \<and>
   \<not> matches layout_regex (formatted_msg trailing_separator_message example_environment) \<and>
   formatted_msg grouped_line_message grouping_environment
     = ''I20231224 09:30:45.123456 12,345 main.cpp:1,234] started'' \<and>
   \<not> matches layout_regex (formatted_msg grouped_line_message grouping_environment) \<and>
   formatted_msg negative_line_message example_environment
     = ''I20231224 09:30:45.123456 12345 main.cpp:-1] started'' \<and>
   \<not> matches layout_regex (formatted_msg negative_line_message example_environment) \<and>
   formatted_msg line_feed_message example_environment
     = ''I20231224 09:30:45.123456 12345 main.cpp:42] a'' @ [CHR 0x0A] @ ''b'' \<and>
   \<not> matches layout_regex (formatted_msg line_feed_message example_environment) \<and>
   formatted_msg info_message far_future_environment
     = ''I100001224 09:30:45.123456 12345 main.cpp:42] started'' \<and>
   \<not> matches layout_regex (formatted_msg info_message far_future_environment) \<and>
   formatted_msg info_message before_epoch_environment
     = ''I19691231 23:59:59.-00001 12345 main.cpp:42] started'' \<and>
   \<not> matches layout_regex (formatted_msg info_message before_epoch_environment)"
proof -
  have e: "tm_in_range (local_tm example_environment) \<and> 0 \<le> now_us example_environment \<and>
     grouping (global_locale example_environment) = [] \<and>
     message trailing_separator_message \<noteq> []"
    by (simp add: example_environment_def tm_in_range_def trailing_separator_message_def)
  have 1: "\<not> matches layout_regex (formatted_msg trailing_separator_message example_environment)"
    unfolding trailing_separator_line regex_defs by (simp add: eval_nat_numeral)
  have 2: "\<not> matches layout_regex (formatted_msg grouped_line_message grouping_environment)"
    unfolding grouped_line regex_defs by (simp add: eval_nat_numeral)
  have 3: "\<not> matches layout_regex (formatted_msg negative_line_message example_environment)"
    unfolding negative_line regex_defs by (simp add: eval_nat_numeral)
  have 4: "\<not> matches layout_regex (formatted_msg line_feed_message example_environment)"
    unfolding line_feed_line regex_defs by (simp add: eval_nat_numeral)
  have 5: "\<not> matches layout_regex (formatted_msg info_message far_future_environment)"
    unfolding far_future_line regex_defs by (simp add: eval_nat_numeral)
  have 6: "\<not> matches layout_regex (formatted_msg info_message before_epoch_environment)"
    unfolding before_epoch_line regex_defs by (simp add: eval_nat_numeral)
  from e 1 2 3 4 5 6 trailing_separator_line grouped_line negative_line line_feed_line
    far_future_line before_epoch_line
  show ?thesis by (intro conjI) (simp_all only: simp_thms)
qed

end
